theory Spec2Isabelle
  imports Complex_Main
begin

section \<open>JavaScript numbers\<close>

text \<open>
  A JavaScript Number is an IEEE 754 binary64 value.  The finite ones are carried by the
  real number they denote; the two infinities and NaN are separate values.  The sign of
  zero is not kept: \<open>-0\<close> and \<open>+0\<close> are the one value \<open>Fin 0\<close>.  (Both are falsy
  and both are finite.  The sign of a zero shows only in a division by it; every division
  of the calculators divides by a non-zero literal or by \<open>Math.max(1e-9, _)\<close>, but for the
  one in \<open>turnRadiusNM\<close>, where a zero divisor is taken as \<open>+0\<close>.)
\<close>

datatype number = Fin real | PInf | NInf | NaN

text \<open>
  Rounding to nearest, ties to even, with 53 significant bits and the subnormal grid
  \<open>2 powi (-1074)\<close>: \<open>ulp_exp x\<close> is the exponent of the spacing of the binary64 grid around
  \<open>x\<close>.  A rounded magnitude of \<open>2 ^ 1024\<close> or more overflows to an infinity.
\<close>

definition ulp_exp :: "real \<Rightarrow> int" where
  "ulp_exp x = max (\<lfloor>log 2 \<bar>x\<bar>\<rfloor> - 52) (- 1074)"

definition round_half_even :: "real \<Rightarrow> int" where
  "round_half_even y =
     (let f = \<lfloor>y\<rfloor>; d = y - of_int f
      in if d < 1 / 2 then f else if 1 / 2 < d then f + 1
         else if even f then f else f + 1)"

definition rnd :: "real \<Rightarrow> real" where
  "rnd x = of_int (round_half_even (x / 2 powi ulp_exp x)) * 2 powi ulp_exp x"

definition fl :: "real \<Rightarrow> number" where
  "fl x = (let r = rnd x
           in if 2 ^ 1024 \<le> \<bar>r\<bar> then (if 0 < r then PInf else NInf) else Fin r)"

text \<open>The arithmetic operators \<open>+ - * /\<close> on Numbers, unary minus, and the library calls.\<close>

fun js_neg :: "number \<Rightarrow> number" where
  "js_neg (Fin x) = Fin (- x)"
| "js_neg PInf = NInf"
| "js_neg NInf = PInf"
| "js_neg NaN = NaN"

fun js_add :: "number \<Rightarrow> number \<Rightarrow> number" where
  "js_add NaN _ = NaN"
| "js_add _ NaN = NaN"
| "js_add PInf NInf = NaN"
| "js_add NInf PInf = NaN"
| "js_add PInf _ = PInf"
| "js_add _ PInf = PInf"
| "js_add NInf _ = NInf"
| "js_add _ NInf = NInf"
| "js_add (Fin x) (Fin y) = fl (x + y)"

definition js_sub :: "number \<Rightarrow> number \<Rightarrow> number" where
  "js_sub a b = js_add a (js_neg b)"

definition sign_inf :: "bool \<Rightarrow> number" where
  "sign_inf positive = (if positive then PInf else NInf)"

fun js_mul :: "number \<Rightarrow> number \<Rightarrow> number" where
  "js_mul NaN _ = NaN"
| "js_mul _ NaN = NaN"
| "js_mul (Fin x) (Fin y) = fl (x * y)"
| "js_mul (Fin x) PInf = (if x = 0 then NaN else sign_inf (0 < x))"
| "js_mul (Fin x) NInf = (if x = 0 then NaN else sign_inf (x < 0))"
| "js_mul PInf (Fin y) = (if y = 0 then NaN else sign_inf (0 < y))"
| "js_mul NInf (Fin y) = (if y = 0 then NaN else sign_inf (y < 0))"
| "js_mul PInf PInf = PInf"
| "js_mul NInf NInf = PInf"
| "js_mul PInf NInf = NInf"
| "js_mul NInf PInf = NInf"

fun js_div :: "number \<Rightarrow> number \<Rightarrow> number" where
  "js_div NaN _ = NaN"
| "js_div _ NaN = NaN"
| "js_div (Fin x) (Fin y) =
     (if y = 0 then (if x = 0 then NaN else sign_inf (0 < x)) else fl (x / y))"
| "js_div (Fin x) PInf = Fin 0"
| "js_div (Fin x) NInf = Fin 0"
| "js_div PInf (Fin y) = sign_inf (0 \<le> y)"
| "js_div NInf (Fin y) = sign_inf (y < 0)"
| "js_div PInf PInf = NaN"
| "js_div PInf NInf = NaN"
| "js_div NInf PInf = NaN"
| "js_div NInf NInf = NaN"

fun Math_max :: "number \<Rightarrow> number \<Rightarrow> number" where
  "Math_max NaN _ = NaN"
| "Math_max _ NaN = NaN"
| "Math_max PInf _ = PInf"
| "Math_max _ PInf = PInf"
| "Math_max NInf b = b"
| "Math_max a NInf = a"
| "Math_max (Fin x) (Fin y) = Fin (max x y)"

fun Math_abs :: "number \<Rightarrow> number" where
  "Math_abs (Fin x) = Fin \<bar>x\<bar>"
| "Math_abs PInf = PInf"
| "Math_abs NInf = PInf"
| "Math_abs NaN = NaN"

text \<open>
  \<open>Math.tan\<close> is implementation-approximated.  The language fixes its result for NaN and
  the infinities (NaN) and for a zero (that zero); for every other argument the result is
  what the engine computes, and engines differ from the exact tangent in the last bits.
  So the engine's tangent is a parameter of the model: \<open>tan_impl x\<close> is the value of the
  Number that the engine's \<open>Math.tan\<close> returns for the finite non-zero argument \<open>x\<close>.
  Nothing is assumed of it but where a theorem says so.
\<close>

fun Math_tan :: "(real \<Rightarrow> real) \<Rightarrow> number \<Rightarrow> number" where
  "Math_tan tan_impl (Fin x) = (if x = 0 then Fin 0 else fl (tan_impl x))"
| "Math_tan tan_impl _ = NaN"

text \<open>\<open>Math.PI\<close> is the binary64 value next to \<open>\<pi>\<close>, \<open>0x400921FB54442D18\<close>.\<close>

definition Math_PI :: number where
  "Math_PI = Fin (884279719003555 / 2 ^ 48)"

fun isFinite :: "number \<Rightarrow> bool" where
  "isFinite (Fin _) = True"
| "isFinite _ = False"

text \<open>Truthiness of a Number (\<open>x || y\<close>, \<open>x ? a : b\<close>): zero and NaN are falsy.\<close>

fun truthy :: "number \<Rightarrow> bool" where
  "truthy (Fin x) = (x \<noteq> 0)"
| "truthy NaN = False"
| "truthy _ = True"

text \<open>
  A value that is a Number or \<open>null\<close> is a \<open>number option\<close>, \<open>None\<close> being \<open>null\<close>.
  \<open>Number.isFinite\<close> does not coerce: it is false on \<open>null\<close>.  An arithmetic operator
  coerces its operand with ToNumber, under which \<open>null\<close> is \<open>+0\<close>.
\<close>

fun Number_isFinite :: "number option \<Rightarrow> bool" where
  "Number_isFinite None = False"
| "Number_isFinite (Some n) = isFinite n"

fun ToNumber :: "number option \<Rightarrow> number" where
  "ToNumber None = Fin 0"
| "ToNumber (Some n) = n"

section \<open>parseFloat\<close>

text \<open>
  Strings are lists of code units below 256.  \<open>parseFloat\<close> drops leading white space,
  takes the longest prefix that is a \<open>StrDecimalLiteral\<close> and returns its value, rounded
  to nearest; it returns NaN when no prefix is one.
\<close>

definition is_white_space :: "char \<Rightarrow> bool" where
  "is_white_space c \<longleftrightarrow> (of_char c :: nat) \<in> {9, 10, 11, 12, 13, 32, 160}"

definition is_digit :: "char \<Rightarrow> bool" where
  "is_digit c \<longleftrightarrow> 48 \<le> (of_char c :: nat) \<and> (of_char c :: nat) \<le> 57"

definition digits_value :: "string \<Rightarrow> nat" where
  "digits_value ds = foldl (\<lambda>a c. 10 * a + ((of_char c :: nat) - 48)) 0 ds"

text \<open>
  \<open>ExponentPart\<close> (optional): \<open>e\<close> or \<open>E\<close>, an optional sign and at least one digit.  When
  the text is not an exponent part the exponent is 0 and nothing of it is consumed.
\<close>

definition signed_integer :: "string \<Rightarrow> int" where
  "signed_integer s =
     (case s of
        c # r \<Rightarrow>
          if c = CHR ''+'' then int (digits_value (takeWhile is_digit r))
          else if c = CHR ''-'' then
            (if takeWhile is_digit r = [] then 0 else - int (digits_value (takeWhile is_digit r)))
          else int (digits_value (takeWhile is_digit s))
      | [] \<Rightarrow> 0)"

definition exponent_part :: "string \<Rightarrow> int" where
  "exponent_part s =
     (case s of
        c # r \<Rightarrow> if c = CHR ''e'' \<or> c = CHR ''E'' then signed_integer r else 0
      | [] \<Rightarrow> 0)"

datatype literal = Infinity_literal | Decimal nat int

text \<open>
  \<open>StrUnsignedDecimalLiteral\<close>: \<open>Infinity\<close>, or digits with an optional fraction, or a
  fraction that starts with the point; \<open>Decimal m e\<close> stands for \<open>m \<times> 10\<^sup>e\<close>.
\<close>

definition StrUnsignedDecimalLiteral :: "string \<Rightarrow> literal option" where
  "StrUnsignedDecimalLiteral s =
     (if take 8 s = ''Infinity'' then Some Infinity_literal
      else
        let ip = takeWhile is_digit s; r1 = dropWhile is_digit s
        in case r1 of
             c # r2 \<Rightarrow>
               if c = CHR ''.'' then
                 (let fp = takeWhile is_digit r2; r3 = dropWhile is_digit r2
                  in if ip = [] \<and> fp = [] then None
                     else Some (Decimal (digits_value (ip @ fp))
                                        (exponent_part r3 - int (length fp))))
               else if ip = [] then None
               else Some (Decimal (digits_value ip) (exponent_part r1))
           | [] \<Rightarrow> if ip = [] then None else Some (Decimal (digits_value ip) 0))"

text \<open>\<open>StrDecimalLiteral\<close>: an optional sign (\<open>True\<close> for minus) before the unsigned literal.\<close>

definition StrDecimalLiteral :: "string \<Rightarrow> (bool \<times> literal) option" where
  "StrDecimalLiteral s =
     (case s of
        c # r \<Rightarrow>
          if c = CHR ''+'' then map_option (Pair False) (StrUnsignedDecimalLiteral r)
          else if c = CHR ''-'' then map_option (Pair True) (StrUnsignedDecimalLiteral r)
          else map_option (Pair False) (StrUnsignedDecimalLiteral s)
      | [] \<Rightarrow> None)"

fun literal_value :: "literal \<Rightarrow> number" where
  "literal_value Infinity_literal = PInf"
| "literal_value (Decimal m e) =
     fl (if 0 \<le> e then of_nat m * 10 ^ nat e else of_nat m / 10 ^ nat (- e))"

definition parseFloat :: "string \<Rightarrow> number" where
  "parseFloat inputString =
     (case StrDecimalLiteral (dropWhile is_white_space inputString) of
        None \<Rightarrow> NaN
      | Some (negative, l) \<Rightarrow> if negative then js_neg (literal_value l) else literal_value l)"

section \<open>Math helpers\<close>

text \<open>
  The decimal literals of the source that are not whole numbers: each is the binary64
  value next to the decimal written.
\<close>

definition lit_1e_9 :: number where
  "lit_1e_9 = fl (1 / 10 ^ 9)"

definition lit_0_0001 :: number where
  "lit_0_0001 = fl (1 / 10 ^ 4)"

definition lit_1_68781 :: number where
  "lit_1_68781 = fl (168781 / 10 ^ 5)"

definition lit_32_174 :: number where
  "lit_32_174 = fl (32174 / 10 ^ 3)"

definition lit_6076_12 :: number where
  "lit_6076_12 = fl (607612 / 10 ^ 2)"

text \<open>The real number that the literal \<open>1e-9\<close> denotes.\<close>

definition eps :: real where
  "eps = rnd (1 / 10 ^ 9)"

text \<open>
  What \<open>toNum\<close> is applied to: a property of the input store (a string, or
  \<open>undefined\<close> when the key is absent) or, inside \<open>turnRadiusNM\<close>, a Number.
\<close>

datatype jsval = Undefined | Str string | Num number

text \<open>\<open>.replace(/,/g, '')\<close>: every comma is removed.\<close>

definition remove_commas :: "string \<Rightarrow> string" where
  "remove_commas s = filter (\<lambda>c. c \<noteq> CHR '','') s"

text \<open>
  \<open>parseFloat(String(v ?? '').replace(/,/g, ''))\<close>.  For a Number \<open>n\<close>, \<open>String(n)\<close> is
  the shortest decimal text that reads back as \<open>n\<close>, or \<open>Infinity\<close>, \<open>-Infinity\<close>, \<open>NaN\<close>;
  it has no comma and \<open>parseFloat\<close> returns \<open>n\<close> from it.
\<close>

definition parse_input :: "jsval \<Rightarrow> number" where
  "parse_input v =
     (case v of
        Undefined \<Rightarrow> parseFloat (remove_commas [])
      | Str s \<Rightarrow> parseFloat (remove_commas s)
      | Num n \<Rightarrow> n)"

definition toNum :: "jsval \<Rightarrow> number option \<Rightarrow> number option" where
  "toNum v fallback = (let n = parse_input v in if isFinite n then Some n else fallback)"

text \<open>\<open>toNum(v)\<close> with the default \<open>fallback = 0\<close>, used as an operand.\<close>

definition toNum0 :: "jsval \<Rightarrow> number" where
  "toNum0 v = ToNumber (toNum v (Some (Fin 0)))"

definition ftPerNMFromDegrees :: "(real \<Rightarrow> real) \<Rightarrow> number \<Rightarrow> number" where
  "ftPerNMFromDegrees tan_impl deg =
     js_mul lit_6076_12 (Math_tan tan_impl (js_div (js_mul deg Math_PI) (Fin 180)))"

definition turnRadiusNM :: "(real \<Rightarrow> real) \<Rightarrow> jsval \<Rightarrow> jsval \<Rightarrow> number" where
  "turnRadiusNM tan_impl tasKt bankDeg =
     (let Vfts = js_mul (toNum0 tasKt) lit_1_68781;
          g = lit_32_174;
          phi = js_div (js_mul (toNum0 bankDeg) Math_PI) (Fin 180);
          r_ft = js_div (js_mul Vfts Vfts)
                        (js_mul g (Math_tan tan_impl
                                     (if truthy phi then phi else lit_0_0001)))
      in js_div r_ft lit_6076_12)"

section \<open>Calculator definitions\<close>

text \<open>
  The input value store is an object whose properties are the strings typed by the user;
  reading a key that is not there gives \<open>undefined\<close>.  A calculator returns an object
  with one property for each output, a Number or \<open>null\<close>; it is kept as the list of its
  properties in the order they are written.
\<close>

type_synonym store = "string \<rightharpoonup> string"

type_synonym result = "(string \<times> number option) list"

definition property :: "store \<Rightarrow> string \<Rightarrow> jsval" where
  "property v k = (case v k of None \<Rightarrow> Undefined | Some s \<Rightarrow> Str s)"

definition gradient :: "store \<Rightarrow> result" where
  "gradient v =
     [(''gradientFtPerNM'',
       Some (js_div (toNum0 (property v ''altitudeChangeFt''))
                    (Math_max lit_1e_9 (toNum0 (property v ''distanceNM'')))))]"

definition pitch :: "store \<Rightarrow> result" where
  "pitch v =
     [(''pitchDeg'',
       Some (js_add (js_div (toNum0 (property v ''gradientPercent'')) (Fin 100))
                    (toNum0 (property v ''xCorrectionDeg''))))]"

definition ias2tas :: "store \<Rightarrow> result" where
  "ias2tas v =
     (let ktas = js_add (toNum0 (property v ''iasKt''))
                        (js_mul (Fin 5) (js_div (toNum0 (property v ''pressureAltFt'')) (Fin 1000)))
      in [(''ktas'', Some ktas), (''tasNMmin'', Some (js_div ktas (Fin 60)))])"

definition avgTas :: "store \<Rightarrow> result" where
  "avgTas v =
     (let avg = js_div (js_add (toNum0 (property v ''tasLow'')) (toNum0 (property v ''tasHigh''))) (Fin 2)
      in [(''avgTasKt'', Some avg), (''avgTasNMmin'', Some (js_div avg (Fin 60)))])"

definition vvi :: "store \<Rightarrow> result" where
  "vvi v =
     (let gradient = toNum (property v ''gradientFtPerNM'') (Some (Fin 0));
          tasNMmin = toNum (property v ''tasNMmin'') None;
          tasNMhr = toNum (property v ''tasNMhr'') None
      in if \<not> Number_isFinite gradient then [(''vviFPM'', None)]
         else if Number_isFinite tasNMmin then
           [(''vviFPM'', Some (js_mul (ToNumber gradient) (ToNumber tasNMmin)))]
         else if Number_isFinite tasNMhr then
           [(''vviFPM'',
             Some (js_mul (ToNumber gradient) (js_div (ToNumber tasNMhr) (Fin 60))))]
         else [(''vviFPM'', None)])"

definition turnRadius :: "(real \<Rightarrow> real) \<Rightarrow> store \<Rightarrow> result" where
  "turnRadius tan_impl v =
     [(''rNM'',
       Some (turnRadiusNM tan_impl (Num (toNum0 (property v ''tasKt'')))
                                   (Num (toNum0 (property v ''bankDeg'')))))]"

definition leadRadial :: "store \<Rightarrow> result" where
  "leadRadial v =
     (let lead = js_div (js_mul (Fin 60) (toNum0 (property v ''rNM'')))
                        (Math_max lit_1e_9 (toNum0 (property v ''arcingDME'')))
      in [(''leadDegMinus'', Some (js_sub (toNum0 (property v ''interceptRadial'')) lead)),
          (''leadDegPlus'', Some (js_add (toNum0 (property v ''interceptRadial'')) lead))])"

definition leadDME :: "store \<Rightarrow> result" where
  "leadDME v =
     [(''inbound'', Some (js_sub (toNum0 (property v ''arcingDME'')) (toNum0 (property v ''rNM'')))),
      (''outbound'', Some (js_add (toNum0 (property v ''arcingDME'')) (toNum0 (property v ''rNM''))))]"

definition arcDistance :: "store \<Rightarrow> result" where
  "arcDistance v =
     [(''arcNM'',
       Some (js_mul (js_div (Math_abs (js_sub (toNum0 (property v ''startRadial''))
                                              (toNum0 (property v ''endRadial''))))
                            (Fin 60))
                    (toNum0 (property v ''arcingDME''))))]"

definition turningDistance :: "store \<Rightarrow> result" where
  "turningDistance v =
     [(''turnDistNM'',
       Some (js_mul (js_mul (js_mul (js_div (toNum0 (property v ''degrees'')) (Fin 360)) (Fin 2))
                            Math_PI)
                    (toNum0 (property v ''rNM''))))]"

definition loss90 :: "store \<Rightarrow> result" where
  "loss90 v =
     (let r = toNum0 (property v ''rNM'');
          arc = js_mul (js_mul (js_mul (js_div (Fin 90) (Fin 360)) (Fin 2)) Math_PI) r;
          loss = js_sub (js_mul (Fin 2) r) arc
      in [(''lossNM'', Some loss)])"

definition climbDescend :: "store \<Rightarrow> result" where
  "climbDescend v =
     [(''nm'',
       Some (js_div (toNum0 (property v ''altitudeToClimbFt''))
                    (Math_max lit_1e_9 (toNum0 (property v ''climbGradientFtPerNM'')))))]"

definition vdp :: "(real \<Rightarrow> real) \<Rightarrow> store \<Rightarrow> result" where
  "vdp tan_impl v =
     (let ftPerNM = ftPerNMFromDegrees tan_impl (toNum0 (property v ''slopeDeg''))
      in [(''vdpNM'',
           Some (js_div (toNum0 (property v ''hatFt'')) (Math_max lit_1e_9 ftPerNM))),
          (''ftPerNM'', Some ftPerNM)])"

definition timeOut :: "store \<Rightarrow> result" where
  "timeOut v =
     (let gs = toNum0 (property v ''groundSpeedKt'');
          nmPerMin = js_div gs (Fin 60);
          threeMin = js_mul nmPerMin (Fin 3);
          twoMin = js_mul nmPerMin (Fin 2);
          oneMin = js_mul nmPerMin (Fin 1);
          custom = toNum0 (property v ''customMinutes'')
      in [(''dist3min'', Some threeMin),
          (''dist2min'', Some twoMin),
          (''dist1min'', Some oneMin),
          (''distCustom'', if truthy custom then Some (js_mul nmPerMin custom) else None)])"

text \<open>
  A calculator of the table: its id, its input fields (key, optional default string, the
  advisory optional flag), its compute function and the keys of its outputs.  A compute
  function reads the store and may call \<open>Math.tan\<close>, so it takes the engine's tangent
  before the store; only \<open>turnRadius\<close> and \<open>vdp\<close> use it.  The title, the labels and the
  equation text are display strings and are left out.
\<close>

record field =
  key :: string
  default :: "string option"
  optional :: bool

record calc =
  calc_id :: string
  calc_fields :: "field list"
  compute :: "(real \<Rightarrow> real) \<Rightarrow> store \<Rightarrow> result"
  outputs :: "string list"

definition fld :: "string \<Rightarrow> field" where
  "fld k = \<lparr>key = k, default = None, optional = False\<rparr>"

definition CALCS :: "calc list" where
  "CALCS =
     [\<lparr>calc_id = ''gradient'',
       calc_fields = [fld ''altitudeChangeFt'', fld ''distanceNM''],
       compute = (\<lambda>tan_impl. gradient), outputs = [''gradientFtPerNM'']\<rparr>,
      \<lparr>calc_id = ''pitch'',
       calc_fields = [fld ''gradientPercent'', fld ''xCorrectionDeg''],
       compute = (\<lambda>tan_impl. pitch), outputs = [''pitchDeg'']\<rparr>,
      \<lparr>calc_id = ''ias2tas'',
       calc_fields = [fld ''iasKt'', fld ''pressureAltFt''],
       compute = (\<lambda>tan_impl. ias2tas), outputs = [''ktas'', ''tasNMmin'']\<rparr>,
      \<lparr>calc_id = ''avgTas'',
       calc_fields = [fld ''tasLow'', fld ''tasHigh''],
       compute = (\<lambda>tan_impl. avgTas), outputs = [''avgTasKt'', ''avgTasNMmin'']\<rparr>,
      \<lparr>calc_id = ''vvi'',
       calc_fields = [fld ''gradientFtPerNM'',
                 \<lparr>key = ''tasNMmin'', default = None, optional = True\<rparr>,
                 \<lparr>key = ''tasNMhr'', default = None, optional = True\<rparr>],
       compute = (\<lambda>tan_impl. vvi), outputs = [''vviFPM'']\<rparr>,
      \<lparr>calc_id = ''turnRadius'',
       calc_fields = [fld ''tasKt'',
                 \<lparr>key = ''bankDeg'', default = Some ''30'', optional = False\<rparr>],
       compute = turnRadius, outputs = [''rNM'']\<rparr>,
      \<lparr>calc_id = ''leadRadial'',
       calc_fields = [fld ''rNM'', fld ''arcingDME'', fld ''interceptRadial''],
       compute = (\<lambda>tan_impl. leadRadial), outputs = [''leadDegMinus'', ''leadDegPlus'']\<rparr>,
      \<lparr>calc_id = ''leadDME'',
       calc_fields = [fld ''arcingDME'', fld ''rNM''],
       compute = (\<lambda>tan_impl. leadDME), outputs = [''inbound'', ''outbound'']\<rparr>,
      \<lparr>calc_id = ''arcDistance'',
       calc_fields = [fld ''startRadial'', fld ''endRadial'', fld ''arcingDME''],
       compute = (\<lambda>tan_impl. arcDistance), outputs = [''arcNM'']\<rparr>,
      \<lparr>calc_id = ''turningDistance'',
       calc_fields = [fld ''degrees'', fld ''rNM''],
       compute = (\<lambda>tan_impl. turningDistance), outputs = [''turnDistNM'']\<rparr>,
      \<lparr>calc_id = ''loss90'',
       calc_fields = [fld ''rNM''],
       compute = (\<lambda>tan_impl. loss90), outputs = [''lossNM'']\<rparr>,
      \<lparr>calc_id = ''climbDescend'',
       calc_fields = [fld ''altitudeToClimbFt'', fld ''climbGradientFtPerNM''],
       compute = (\<lambda>tan_impl. climbDescend), outputs = [''nm'']\<rparr>,
      \<lparr>calc_id = ''vdp'',
       calc_fields = [fld ''hatFt'', fld ''slopeDeg''],
       compute = vdp, outputs = [''vdpNM'', ''ftPerNM'']\<rparr>,
      \<lparr>calc_id = ''timeOut'',
       calc_fields = [fld ''groundSpeedKt'', fld ''customMinutes''],
       compute = (\<lambda>tan_impl. timeOut),
       outputs = [''dist3min'', ''dist2min'', ''dist1min'', ''distCustom'']\<rparr>]"

section \<open>Screen\<close>

text \<open>
  The state of \<open>AISToolsScreen\<close> is the store \<open>values\<close>.  It starts with every declared
  key set to its default or to the empty string; \<open>setField\<close> writes one key; the button
  "Clear All Inputs" calls \<open>setValues({})\<close>.  An input shows
  \<open>String(values[f.key] ?? '')\<close>.
\<close>

definition initial_values :: store where
  "initial_values =
     foldl (\<lambda>v c. foldl (\<lambda>v f. v(key f \<mapsto> (case default f of None \<Rightarrow> [] | Some d \<Rightarrow> d)))
                          v (calc_fields c))
           Map.empty CALCS"

definition setField :: "string \<Rightarrow> string \<Rightarrow> store \<Rightarrow> store" where
  "setField k val p = p(k \<mapsto> val)"

datatype event = ChangeText string string | PressClear

fun on_event :: "store \<Rightarrow> event \<Rightarrow> store" where
  "on_event values (ChangeText k t) = setField k t values"
| "on_event values PressClear = Map.empty"

definition shown :: "store \<Rightarrow> string \<Rightarrow> string" where
  "shown values k = (case values k of None \<Rightarrow> [] | Some s \<Rightarrow> s)"

definition declared_fields :: "field list" where
  "declared_fields = concat (map calc_fields CALCS)"

section \<open>The single-file App.js\<close>

text \<open>
  The older single-file version of the application has the first thirteen calculators.
  It differs in \<open>toNum\<close>, which applies \<open>String\<close> to \<open>undefined\<close> itself, and in the
  \<open>vvi\<close> calculator, which parses all three inputs with the fallback \<open>null\<close> and tests
  them against \<open>null\<close>.
\<close>

definition toNum_App :: "jsval \<Rightarrow> number option \<Rightarrow> number option" where
  "toNum_App v fallback =
     (let n = (case v of
                 Undefined \<Rightarrow> parseFloat (remove_commas ''undefined'')
               | Str s \<Rightarrow> parseFloat (remove_commas s)
               | Num n \<Rightarrow> n)
      in if isFinite n then Some n else fallback)"

definition vvi_App :: "store \<Rightarrow> result" where
  "vvi_App v =
     (let gradient = toNum_App (property v ''gradientFtPerNM'') None;
          tasMin = toNum_App (property v ''tasNMmin'') None;
          tasHr = toNum_App (property v ''tasNMhr'') None
      in if gradient = None then [(''vviFPM'', None)]
         else if tasMin \<noteq> None then
           [(''vviFPM'', Some (js_mul (ToNumber gradient) (ToNumber tasMin)))]
         else if tasHr \<noteq> None then
           [(''vviFPM'', Some (js_mul (ToNumber gradient) (js_div (ToNumber tasHr) (Fin 60))))]
         else [(''vviFPM'', None)])"

section \<open>Relative error\<close>




section \<open>Properties of rounding\<close>

text \<open>
  Rounding moves a value by at most half the spacing of the grid; values on the grid
  are kept; magnitudes from \<open>2 ^ 1024\<close> on overflow.
\<close>

lemma round_half_even_err: "\<bar>of_int (round_half_even y) - y\<bar> \<le> 1 / 2"
  unfolding round_half_even_def Let_def by (auto simp: abs_if) linarith+

lemma round_half_even_int: "round_half_even (of_int n) = n"
  unfolding round_half_even_def Let_def by simp

lemma round_half_even_ge: "of_int n \<le> y \<Longrightarrow> n \<le> round_half_even y"
proof -
  assume "of_int n \<le> y"
  then have "n \<le> \<lfloor>y\<rfloor>" by (simp add: le_floor_iff)
  then show ?thesis unfolding round_half_even_def Let_def by auto
qed

lemma rnd_err: "\<bar>rnd x - x\<bar> \<le> 2 powi ulp_exp x / 2"
proof -
  let ?u = "(2::real) powi ulp_exp x"
  have u: "0 < ?u" by simp
  have "\<bar>of_int (round_half_even (x / ?u)) - x / ?u\<bar> \<le> 1 / 2"
    by (rule round_half_even_err)
  then have "\<bar>of_int (round_half_even (x / ?u)) - x / ?u\<bar> * ?u \<le> 1 / 2 * ?u"
    using u by (intro mult_right_mono) auto
  moreover have "\<bar>of_int (round_half_even (x / ?u)) - x / ?u\<bar> * ?u = \<bar>rnd x - x\<bar>"
  proof -
    have "\<bar>of_int (round_half_even (x / ?u)) - x / ?u\<bar> * ?u
        = \<bar>(of_int (round_half_even (x / ?u)) - x / ?u) * ?u\<bar>"
      using u by (simp add: abs_mult)
    also have "(of_int (round_half_even (x / ?u)) - x / ?u) * ?u = rnd x - x"
      using u by (simp add: rnd_def left_diff_distrib)
    finally show ?thesis .
  qed
  ultimately show ?thesis by simp
qed

lemma powi_floor_log_le:
  assumes "x \<noteq> 0"
  shows "2 powi \<lfloor>log 2 \<bar>x\<bar>\<rfloor> \<le> \<bar>x\<bar>"
proof -
  have "0 < \<bar>x\<bar>" using assms by simp
  then have "2 powr (of_int \<lfloor>log 2 \<bar>x\<bar>\<rfloor>) \<le> \<bar>x\<bar>"
    using floor_log_eq_powr_iff[of "\<bar>x\<bar>" 2 "\<lfloor>log 2 \<bar>x\<bar>\<rfloor>"] by simp
  then show ?thesis by (simp add: powr_real_of_int')
qed

lemma abs_lt_powi_floor_log:
  assumes "x \<noteq> 0"
  shows "\<bar>x\<bar> < 2 powi (\<lfloor>log 2 \<bar>x\<bar>\<rfloor> + 1)"
proof -
  have "0 < \<bar>x\<bar>" using assms by simp
  then have "\<bar>x\<bar> < 2 powr (of_int (\<lfloor>log 2 \<bar>x\<bar>\<rfloor> + 1))"
    using floor_log_eq_powr_iff[of "\<bar>x\<bar>" 2 "\<lfloor>log 2 \<bar>x\<bar>\<rfloor>"] by simp
  moreover have "(2::real) powr (of_int (\<lfloor>log 2 \<bar>x\<bar>\<rfloor> + 1)) = 2 powi (\<lfloor>log 2 \<bar>x\<bar>\<rfloor> + 1)"
    by (rule powr_real_of_int') simp_all
  ultimately show ?thesis by simp
qed

lemma rnd_zero: "rnd 0 = 0"
  by (simp add: rnd_def round_half_even_def)

lemma ulp_le:
  assumes "x \<noteq> 0"
  shows "2 powi ulp_exp x \<le> max (\<bar>x\<bar> / 2 ^ 52) (2 powi (- 1074))"
proof (cases "- 1074 \<le> \<lfloor>log 2 \<bar>x\<bar>\<rfloor> - 52")
  case True
  then have "ulp_exp x = \<lfloor>log 2 \<bar>x\<bar>\<rfloor> - 52" by (simp add: ulp_exp_def)
  then have "(2::real) powi ulp_exp x = 2 powi \<lfloor>log 2 \<bar>x\<bar>\<rfloor> / 2 ^ 52"
    by (simp add: power_int_diff)
  also have "\<dots> \<le> \<bar>x\<bar> / 2 ^ 52"
    using powi_floor_log_le[OF assms] by (simp add: divide_right_mono)
  finally show ?thesis by simp
next
  case False
  then have "ulp_exp x = - 1074" by (simp add: ulp_exp_def)
  then show ?thesis by simp
qed

lemma rnd_abs_err:
  "\<bar>rnd x - x\<bar> \<le> \<bar>x\<bar> / 2 ^ 53 + 2 powi (- 1075)"
proof (cases "x = 0")
  case True
  then show ?thesis by (simp add: rnd_zero)
next
  case False
  have "\<bar>rnd x - x\<bar> \<le> 2 powi ulp_exp x / 2" by (rule rnd_err)
  also have "\<dots> \<le> max (\<bar>x\<bar> / 2 ^ 52) (2 powi (- 1074)) / 2"
    using ulp_le[OF False] by simp
  also have "\<dots> \<le> \<bar>x\<bar> / 2 ^ 53 + 2 powi (- 1075)"
  proof -
    have "(2::real) powi (- 1074) / 2 = 2 powi (- 1075)"
      by (simp add: power_int_minus field_simps)
    moreover have "0 \<le> (2::real) powi (- 1075)" by simp
    moreover have "0 \<le> \<bar>x\<bar> / 2 ^ 53" by simp
    ultimately show ?thesis by (auto simp: max_def)
  qed
  finally show ?thesis .
qed

lemma rnd_rel_err:
  assumes "2 powi (- 1022) \<le> \<bar>x\<bar>"
  shows "\<bar>rnd x - x\<bar> \<le> \<bar>x\<bar> / 2 ^ 53"
proof -
  have nz: "x \<noteq> 0" using assms by auto
  have "(2::real) powi (- 1074) = 2 powi (- 1022) / 2 ^ 52"
    by (simp add: power_int_minus field_simps)
  also have "\<dots> \<le> \<bar>x\<bar> / 2 ^ 52" using assms by (simp add: divide_right_mono)
  finally have "max (\<bar>x\<bar> / 2 ^ 52) (2 powi (- 1074)) = \<bar>x\<bar> / 2 ^ 52" by simp
  then have "2 powi ulp_exp x \<le> \<bar>x\<bar> / 2 ^ 52" using ulp_le[OF nz] by simp
  then have "2 powi ulp_exp x / 2 \<le> \<bar>x\<bar> / 2 ^ 53" by simp
  then show ?thesis using rnd_err[of x] by linarith
qed

lemma powi_less_imp_less: "(2::real) powi a < 2 powi b \<Longrightarrow> a < b"
  using power_int_increasing[of b a "2::real"] by (cases "a < b") auto

lemma rnd_exact:
  assumes m: "\<bar>m\<bar> < 2 ^ 53" and e: "- 1074 \<le> e"
  shows "rnd (of_int m * 2 powi e) = of_int m * 2 powi e"
proof (cases "m = 0")
  case True
  then show ?thesis by (simp add: rnd_zero)
next
  case False
  let ?x = "of_int m * (2::real) powi e"
  have nz: "?x \<noteq> 0" using False by simp
  let ?k = "\<lfloor>log 2 \<bar>?x\<bar>\<rfloor>"
  have "\<bar>?x\<bar> = of_int \<bar>m\<bar> * 2 powi e" by (simp add: abs_mult)
  also have "\<dots> < 2 ^ 53 * 2 powi e"
  proof -
    have "(of_int \<bar>m\<bar> :: real) < of_int (2 ^ 53)" using m by (simp only: of_int_less_iff)
    then show ?thesis by simp
  qed
  also have "\<dots> = 2 powi (e + 53)" by (simp add: power_int_add)
  finally have "\<bar>?x\<bar> < 2 powi (e + 53)" .
  then have "(2::real) powi ?k < 2 powi (e + 53)"
    using powi_floor_log_le[OF nz] by linarith
  then have "?k < e + 53" by (rule powi_less_imp_less)
  then have le: "ulp_exp ?x \<le> e" using e by (simp add: ulp_exp_def)
  define E where "E = ulp_exp ?x"
  define d where "d = nat (e - E)"
  have "e = E + int d" using le by (simp add: d_def E_def)
  then have "(2::real) powi e = 2 powi E * 2 ^ d"
    by (simp add: power_int_add)
  then have q: "?x / 2 powi E = of_int (m * 2 ^ d)" by simp
  have "rnd ?x = of_int (round_half_even (?x / 2 powi E)) * 2 powi E"
    by (simp add: rnd_def E_def)
  also have "\<dots> = of_int (m * 2 ^ d) * 2 powi E"
    unfolding q round_half_even_int ..
  also have "\<dots> = ?x / 2 powi E * 2 powi E" unfolding q ..
  also have "\<dots> = ?x" by simp
  finally show ?thesis .
qed

lemma rnd_int: "\<bar>m\<bar> < 2 ^ 53 \<Longrightarrow> rnd (of_int m) = of_int m"
  using rnd_exact[of m 0] by simp

lemma fl_finite:
  assumes "\<bar>x\<bar> \<le> 2 ^ 1023"
  shows "fl x = Fin (rnd x)"
proof -
  have "\<bar>rnd x - x\<bar> \<le> \<bar>x\<bar> / 2 ^ 53 + 2 powi (- 1075)" by (rule rnd_abs_err)
  moreover have "\<bar>x\<bar> / 2 ^ 53 \<le> 2 ^ 1023 / 2 ^ 53" using assms by (simp add: divide_right_mono)
  moreover have "(2::real) powi (- 1075) \<le> 1" by (simp add: power_int_minus field_simps)
  ultimately have "\<bar>rnd x\<bar> \<le> 2 ^ 1023 + 2 ^ 1023 / 2 ^ 53 + 1" using assms by linarith
  also have "\<dots> < (2::real) ^ 1024" by simp
  finally show ?thesis by (simp add: fl_def)
qed

lemma rnd_ge_pow:
  assumes "2 ^ 1024 \<le> x"
  shows "2 ^ 1024 \<le> rnd x"
proof -
  have pos: "0 < x" using assms by (smt (verit) zero_less_power)
  let ?k = "\<lfloor>log 2 \<bar>x\<bar>\<rfloor>"
  have "(2::real) powi 1024 \<le> \<bar>x\<bar>" using assms pos by simp
  also have "\<dots> < 2 powi (?k + 1)" using abs_lt_powi_floor_log[of x] pos by simp
  finally have "1024 < ?k + 1" by (rule powi_less_imp_less)
  then have k: "1024 \<le> ?k" by simp
  then have u: "ulp_exp x = ?k - 52" by (simp add: ulp_exp_def)
  have "(2::real) ^ 52 * 2 powi (?k - 52) = 2 powi ?k" by (simp add: power_int_diff)
  then have "(2::real) ^ 52 * 2 powi ulp_exp x \<le> x"
    using powi_floor_log_le[of x] pos u by simp
  then have "of_int (2 ^ 52) \<le> x / 2 powi ulp_exp x" by (simp add: pos_le_divide_eq)
  then have "2 ^ 52 \<le> round_half_even (x / 2 powi ulp_exp x)" by (rule round_half_even_ge)
  then have "(of_int (2 ^ 52) :: real) \<le> of_int (round_half_even (x / 2 powi ulp_exp x))"
    by (simp only: of_int_le_iff)
  then have "(2::real) ^ 52 * 2 powi ulp_exp x \<le> rnd x"
    unfolding rnd_def by (intro mult_right_mono) simp_all
  moreover have "(2::real) ^ 52 * 2 powi ulp_exp x = 2 powi ?k"
    unfolding u by (simp add: power_int_diff)
  moreover have "(2::real) powi 1024 \<le> 2 powi ?k"
    using k by (intro power_int_increasing) simp_all
  moreover have "(2::real) powi 1024 = 2 ^ 1024" by simp
  ultimately show ?thesis by linarith
qed

lemma fl_overflow: "2 ^ 1024 \<le> x \<Longrightarrow> fl x = PInf"
  using rnd_ge_pow[of x] by (simp add: fl_def Let_def)


lemma fl_zero: "fl 0 = Fin 0"
  by (simp add: fl_def rnd_zero)

lemma fl_int: "\<bar>m\<bar> < 2 ^ 53 \<Longrightarrow> fl (of_int m) = Fin (of_int m)"
proof -
  assume a: "\<bar>m\<bar> < 2 ^ 53"
  then have "(of_int \<bar>m\<bar> :: real) < of_int (2 ^ 53)" by (simp only: of_int_less_iff)
  then have "\<bar>of_int m :: real\<bar> \<le> 2 ^ 1023" by simp
  then show ?thesis using rnd_int[OF a] by (simp add: fl_finite)
qed

lemma fl_numeral: "(numeral n :: int) < 2 ^ 53 \<Longrightarrow> fl (numeral n) = Fin (numeral n)"
  using fl_int[of "numeral n"] by simp

lemma fl_half: "fl (1 / 2) = Fin (1 / 2)"
proof -
  have "rnd (of_int 1 * 2 powi (- 1)) = of_int 1 * 2 powi (- 1)"
    by (rule rnd_exact) simp_all
  then have "rnd (1 / 2) = 1 / 2" by (simp add: power_int_minus)
  then show ?thesis using fl_finite[of "1 / 2"] by simp
qed

lemmas parse_defs = parseFloat_def StrDecimalLiteral_def StrUnsignedDecimalLiteral_def
  exponent_part_def signed_integer_def digits_value_def is_digit_def is_white_space_def
  remove_commas_def parse_input_def toNum_def toNum0_def property_def

section \<open>Properties of the helpers\<close>

lemmas calc_defs = gradient_def pitch_def ias2tas_def avgTas_def vvi_def turnRadius_def
  leadRadial_def leadDME_def arcDistance_def turningDistance_def loss90_def climbDescend_def
  vdp_def timeOut_def

lemma toNum0_finite: "\<exists>x. toNum0 v = Fin x"
proof (cases "parse_input v")
  case (Fin x)
  then show ?thesis by (simp add: toNum0_def toNum_def)
qed (simp_all add: toNum0_def toNum_def)

lemma eps_bounds: "1 / (2 * 10 ^ 9) \<le> eps \<and> eps \<le> 2 / 10 ^ 9"
proof -
  define x :: real where "x = 1 / 10 ^ 9"
  have x: "0 < x" "x = 1 / 10 ^ 9" by (simp_all add: x_def)
  have "(10::real) ^ 9 \<le> 2 ^ 1022" by simp
  then have "1 / (2::real) ^ 1022 \<le> 1 / 10 ^ 9"
    by (intro divide_left_mono) simp_all
  moreover have "(2::real) powi (- 1022) = 1 / 2 ^ 1022"
    by (simp add: power_int_minus inverse_eq_divide)
  moreover have "\<bar>x\<bar> = 1 / 10 ^ 9" by (simp add: x_def)
  ultimately have "(2::real) powi (- 1022) \<le> \<bar>x\<bar>" by (simp only:)
  then have "\<bar>rnd x - x\<bar> \<le> \<bar>x\<bar> / 2 ^ 53" by (rule rnd_rel_err)
  moreover have "\<bar>x\<bar> / 2 ^ 53 \<le> x / 2" using x(1) by simp
  ultimately have "\<bar>rnd x - x\<bar> \<le> x / 2" by linarith
  then have "x / 2 \<le> rnd x \<and> rnd x \<le> 2 * x" using x(1) by linarith
  moreover have "x / 2 = 1 / (2 * 10 ^ 9)" "2 * x = 2 / 10 ^ 9" by (simp_all add: x_def)
  moreover have "eps = rnd x" by (simp only: eps_def x_def)
  ultimately show ?thesis by (simp only:)
qed

lemma eps_pos: "0 < eps"
proof -
  have "(0::real) < 1 / (2 * 10 ^ 9)" by simp
  then show ?thesis using eps_bounds by linarith
qed

lemma lit_1e_9_eq: "lit_1e_9 = Fin eps"
  unfolding lit_1e_9_def eps_def by (rule fl_finite) simp

lemma guarded_div:
  "js_div (Fin a) (Math_max lit_1e_9 (Fin d)) = fl (a / max eps d)"
proof -
  have "0 < max eps d" using eps_pos by (simp add: less_max_iff_disj)
  then show ?thesis by (simp add: lit_1e_9_eq)
qed

lemma toNum_App_eq: "toNum_App v fallback = toNum v fallback"
  by (cases v) (simp_all add: toNum_App_def parse_defs)

lemma vvi_examples:
  "vvi [''gradientFtPerNM'' \<mapsto> ''300'', ''tasNMmin'' \<mapsto> ''2''] = [(''vviFPM'', Some (Fin 600))]"
  "vvi [''gradientFtPerNM'' \<mapsto> ''300''] = [(''vviFPM'', None)]"
  "vvi [''gradientFtPerNM'' \<mapsto> ''300'', ''tasNMhr'' \<mapsto> ''120''] = [(''vviFPM'', Some (Fin 600))]"
  by (simp_all add: vvi_def parse_defs fl_numeral)

lemma vvi_null_iff:
  "vvi v = [(''vviFPM'', None)] \<longleftrightarrow>
     toNum (property v ''tasNMmin'') None = None \<and> toNum (property v ''tasNMhr'') None = None"
proof -
  have g: "\<exists>g. toNum (property v ''gradientFtPerNM'') (Some (Fin 0)) = Some (Fin g)"
    by (cases "parse_input (property v ''gradientFtPerNM'')") (simp_all add: toNum_def)
  have f: "Number_isFinite (toNum x None) \<longleftrightarrow> toNum x None \<noteq> None" for x
    by (cases "parse_input x") (simp_all add: toNum_def)
  from g obtain g where "toNum (property v ''gradientFtPerNM'') (Some (Fin 0)) = Some (Fin g)" ..
  then show ?thesis unfolding vvi_def Let_def by (simp add: f)
qed

lemma vvi_App_null_iff:
  "vvi_App v = [(''vviFPM'', None)] \<longleftrightarrow>
     toNum (property v ''gradientFtPerNM'') None = None \<or>
     (toNum (property v ''tasNMmin'') None = None \<and> toNum (property v ''tasNMhr'') None = None)"
  unfolding vvi_App_def Let_def toNum_App_eq by simp

section \<open>The vertical-speed calculator\<close>

text \<open>
  Claim C1.  The claim: \<open>vvi\<close> returns \<open>null\<close> exactly when the gradient input is empty or
  not numeric, or both TAS inputs are; otherwise it returns gradient \<times> TAS (NM/min).  The
  screen's \<open>vvi\<close> parses the gradient with the default fallback 0, so its test
  \<open>!Number.isFinite(gradient)\<close> never holds: with an empty gradient and TAS 2 NM/min it
  returns 0, where the single-file version, which parses the gradient with the fallback
  \<open>null\<close>, returns \<open>null\<close>.  (\<open>vvi_null_iff\<close> and \<open>vvi_App_null_iff\<close> give the two
  conditions in full, \<open>vvi_examples\<close> the three examples of the claim.)
\<close>

theorem vvi_blank_gradient:
  "vvi [''gradientFtPerNM'' \<mapsto> [], ''tasNMmin'' \<mapsto> ''2'', ''tasNMhr'' \<mapsto> []]
     = [(''vviFPM'', Some (Fin 0))] \<and>
   vvi_App [''gradientFtPerNM'' \<mapsto> [], ''tasNMmin'' \<mapsto> ''2'', ''tasNMhr'' \<mapsto> []]
     = [(''vviFPM'', None)]"
  by (simp add: vvi_def vvi_App_def toNum_App_def parse_defs fl_numeral fl_zero)

section \<open>Clearing the store\<close>

text \<open>
  After "Clear All Inputs" a declared field without a default is shown and parsed as at
  startup: it is absent from the store, and an absent key reads as the empty string.
\<close>

lemma clear_keeps_fields_without_default:
  "\<forall>f \<in> set declared_fields. default f = None \<longrightarrow>
     shown (on_event values PressClear) (key f) = shown initial_values (key f) \<and>
     toNum (property (on_event values PressClear) (key f)) fallback
       = toNum (property initial_values (key f)) fallback"
  by (simp add: declared_fields_def initial_values_def CALCS_def fld_def shown_def property_def
      parse_defs)

text \<open>
  Claim C2.  The claim: after "Clear All Inputs" the store is what it was at startup, each
  declared field at the empty string or at its default, \<open>bankDeg\<close> at \<open>30\<close>.  The button
  calls \<open>setValues({})\<close> and not the initializer of the state, which sets
  \<open>f.default ?? ''\<close>: after the clear \<open>bankDeg\<close> is absent from the store, is shown as the
  empty string and is parsed as 0, where at startup it is \<open>30\<close>, shown as \<open>30\<close> and parsed
  as 30.
\<close>

theorem clear_drops_default:
  "initial_values ''bankDeg'' = Some ''30'' \<and>
   shown initial_values ''bankDeg'' = ''30'' \<and>
   toNum0 (property initial_values ''bankDeg'') = Fin 30 \<and>
   on_event initial_values PressClear ''bankDeg'' = None \<and>
   shown (on_event initial_values PressClear) ''bankDeg'' = [] \<and>
   toNum0 (property (on_event initial_values PressClear) ''bankDeg'') = Fin 0 \<and>
   on_event initial_values PressClear \<noteq> initial_values"
proof -
  have b: "initial_values ''bankDeg'' = Some ''30''"
    by (simp add: initial_values_def CALCS_def fld_def)
  have a: "on_event initial_values PressClear ''bankDeg'' = None" by simp
  have "on_event initial_values PressClear \<noteq> initial_values"
  proof
    assume "on_event initial_values PressClear = initial_values"
    then have "on_event initial_values PressClear ''bankDeg'' = initial_values ''bankDeg''"
      by (rule arg_cong[where f = "\<lambda>m. m ''bankDeg''"])
    with a b show False by simp
  qed
  moreover have "shown initial_values ''bankDeg'' = ''30''" by (simp add: shown_def b)
  moreover have "toNum0 (property initial_values ''bankDeg'') = Fin 30"
    by (simp add: b parse_defs fl_numeral)
  moreover have "shown (on_event initial_values PressClear) ''bankDeg'' = []"
    by (simp add: shown_def)
  moreover have "toNum0 (property (on_event initial_values PressClear) ''bankDeg'') = Fin 0"
    by (simp add: parse_defs)
  ultimately show ?thesis using a b by (intro conjI)
qed

section \<open>The catalogue\<close>

text \<open>
  Claim C5.  \<open>CALCS\<close> is a list of exactly fourteen calculators, in the order gradient,
  pitch, ias2tas, avgTas, vvi, turnRadius, leadRadial, leadDME, arcDistance,
  turningDistance, loss90, climbDescend, vdp, timeOut, with pairwise different ids; each
  \<open>compute\<close> is a function of the store (and of the engine's \<open>Math.tan\<close>) alone and
  returns, for every store, exactly the outputs its entry declares.
\<close>

theorem CALCS_fourteen:
  "length CALCS = 14 \<and>
   map calc_id CALCS =
     [''gradient'', ''pitch'', ''ias2tas'', ''avgTas'', ''vvi'', ''turnRadius'', ''leadRadial'',
      ''leadDME'', ''arcDistance'', ''turningDistance'', ''loss90'', ''climbDescend'', ''vdp'',
      ''timeOut''] \<and>
   distinct (map calc_id CALCS) \<and>
   map (\<lambda>c. map fst (compute c tan_impl v)) CALCS = map outputs CALCS"
  by (simp add: CALCS_def calc_defs Let_def)

text \<open>
  Claim C8.  Every calculator reads only the keys it declares: on two stores that agree
  on the declared keys of a calculator, whatever they hold elsewhere, its \<open>compute\<close>
  returns the same outputs.  (A \<open>compute\<close> is a function from the store to the outputs:
  it has no other input but the engine's \<open>Math.tan\<close> and returns no store.)
\<close>

theorem compute_reads_declared_keys:
  "\<forall>c \<in> set CALCS. (\<forall>f \<in> set (calc_fields c). v1 (key f) = v2 (key f)) \<longrightarrow>
     compute c tan_impl v1 = compute c tan_impl v2"
  by (simp add: CALCS_def calc_defs fld_def property_def)

theorem compute_reads_declared_keys_witness:
  "CALCS ! 7 \<in> set CALCS \<and>
   map key (calc_fields (CALCS ! 7)) = [''arcingDME'', ''rNM''] \<and>
   [''arcingDME'' \<mapsto> ''15'', ''rNM'' \<mapsto> ''2''] ''arcingDME''
     = [''arcingDME'' \<mapsto> ''15'', ''rNM'' \<mapsto> ''2'', ''tasKt'' \<mapsto> ''150''] ''arcingDME'' \<and>
   [''arcingDME'' \<mapsto> ''15'', ''rNM'' \<mapsto> ''2''] ''rNM''
     = [''arcingDME'' \<mapsto> ''15'', ''rNM'' \<mapsto> ''2'', ''tasKt'' \<mapsto> ''150''] ''rNM'' \<and>
   compute (CALCS ! 7) tan [''arcingDME'' \<mapsto> ''15'', ''rNM'' \<mapsto> ''2'']
     = compute (CALCS ! 7) tan
         [''arcingDME'' \<mapsto> ''15'', ''rNM'' \<mapsto> ''2'', ''tasKt'' \<mapsto> ''150''] \<and>
   compute (CALCS ! 7) tan [''arcingDME'' \<mapsto> ''15'', ''rNM'' \<mapsto> ''2'', ''tasKt'' \<mapsto> ''150'']
     = [(''inbound'', Some (Fin 13)), (''outbound'', Some (Fin 17))]"
proof -
  let ?c = "CALCS ! 7"
  let ?v1 = "[''arcingDME'' \<mapsto> ''15'', ''rNM'' \<mapsto> ''2'']"
  let ?v2 = "[''arcingDME'' \<mapsto> ''15'', ''rNM'' \<mapsto> ''2'', ''tasKt'' \<mapsto> ''150'']"
  have c: "?c = \<lparr>calc_id = ''leadDME'', calc_fields = [fld ''arcingDME'', fld ''rNM''],
                  compute = (\<lambda>tan_impl. leadDME), outputs = [''inbound'', ''outbound'']\<rparr>"
    by (simp add: CALCS_def)
  have m: "?c \<in> set CALCS" by (simp add: CALCS_def)
  have k: "map key (calc_fields ?c) = [''arcingDME'', ''rNM'']"
    unfolding c by (simp add: fld_def)
  have a: "?v1 ''arcingDME'' = ?v2 ''arcingDME''" and b: "?v1 ''rNM'' = ?v2 ''rNM''"
    by simp_all
  have h: "\<forall>f \<in> set (calc_fields ?c). ?v1 (key f) = ?v2 (key f)"
    unfolding c by (simp add: fld_def)
  have e: "compute ?c tan ?v1 = compute ?c tan ?v2"
    using compute_reads_declared_keys[of ?v1 ?v2 tan] m h by blast
  have r: "compute ?c tan ?v2 = [(''inbound'', Some (Fin 13)), (''outbound'', Some (Fin 17))]"
    unfolding c by (simp add: leadDME_def js_sub_def parse_defs fl_numeral)
  from m k a b e r show ?thesis by blast
qed

section \<open>Gradient and time-out\<close>

text \<open>
  Claim C6.  For every store the gradient calculator returns the parsed altitude change
  divided by the larger of \<open>1e-9\<close> and the parsed distance, as one binary64 division; with
  altitude \<open>1000\<close> and distance \<open>2,000\<close> the distance parses to 2000 and the result is
  0.5.
\<close>

theorem gradient_formula:
  "(\<exists>a d. toNum0 (property v ''altitudeChangeFt'') = Fin a \<and>
           toNum0 (property v ''distanceNM'') = Fin d \<and>
           gradient v = [(''gradientFtPerNM'', Some (fl (a / max eps d)))]) \<and>
   gradient [''altitudeChangeFt'' \<mapsto> ''1000'', ''distanceNM'' \<mapsto> ''2,000'']
     = [(''gradientFtPerNM'', Some (Fin (1 / 2)))]"
proof
  obtain a where a: "toNum0 (property v ''altitudeChangeFt'') = Fin a"
    using toNum0_finite by blast
  obtain d where d: "toNum0 (property v ''distanceNM'') = Fin d"
    using toNum0_finite by blast
  show "\<exists>a d. toNum0 (property v ''altitudeChangeFt'') = Fin a \<and>
           toNum0 (property v ''distanceNM'') = Fin d \<and>
           gradient v = [(''gradientFtPerNM'', Some (fl (a / max eps d)))]"
    using a d by (simp add: gradient_def guarded_div)
next
  let ?v = "[''altitudeChangeFt'' \<mapsto> ''1000'', ''distanceNM'' \<mapsto> ''2,000'']"
  have a: "toNum0 (property ?v ''altitudeChangeFt'') = Fin 1000"
    by (simp add: parse_defs fl_numeral)
  have d: "toNum0 (property ?v ''distanceNM'') = Fin 2000"
    by (simp add: parse_defs fl_numeral)
  have "eps \<le> 2 / 10 ^ 9" using eps_bounds by simp
  moreover have "(2::real) / 10 ^ 9 \<le> 2000" by simp
  ultimately have m: "max eps 2000 = 2000" by simp
  have "gradient ?v = [(''gradientFtPerNM'', Some (fl (1000 / max eps 2000)))]"
    unfolding gradient_def a d guarded_div ..
  then show "gradient ?v = [(''gradientFtPerNM'', Some (Fin (1 / 2)))]"
    unfolding m by (simp add: fl_half)
qed

text \<open>
  Claim C9.  For every store the time-out calculator returns (GS / 60) \<times> 3, (GS / 60) \<times> 2
  and (GS / 60) \<times> 1, and for the custom output (GS / 60) \<times> custom when the parsed custom
  minutes are not zero and \<open>null\<close> when they are zero, which is the case for an absent, a
  non-numeric and a zero input.
\<close>

theorem timeOut_formula:
  "(\<exists>gs c. toNum0 (property v ''groundSpeedKt'') = Fin gs \<and>
            toNum0 (property v ''customMinutes'') = Fin c \<and>
            timeOut v =
              [(''dist3min'', Some (js_mul (js_div (Fin gs) (Fin 60)) (Fin 3))),
               (''dist2min'', Some (js_mul (js_div (Fin gs) (Fin 60)) (Fin 2))),
               (''dist1min'', Some (js_mul (js_div (Fin gs) (Fin 60)) (Fin 1))),
               (''distCustom'',
                if c = 0 then None else Some (js_mul (js_div (Fin gs) (Fin 60)) (Fin c)))]) \<and>
   timeOut [''groundSpeedKt'' \<mapsto> ''120'', ''customMinutes'' \<mapsto> ''5'']
     = [(''dist3min'', Some (Fin 6)), (''dist2min'', Some (Fin 4)), (''dist1min'', Some (Fin 2)),
        (''distCustom'', Some (Fin 10))] \<and>
   timeOut [''groundSpeedKt'' \<mapsto> ''120'']
     = [(''dist3min'', Some (Fin 6)), (''dist2min'', Some (Fin 4)), (''dist1min'', Some (Fin 2)),
        (''distCustom'', None)] \<and>
   timeOut [''groundSpeedKt'' \<mapsto> ''120'', ''customMinutes'' \<mapsto> ''abc'']
     = [(''dist3min'', Some (Fin 6)), (''dist2min'', Some (Fin 4)), (''dist1min'', Some (Fin 2)),
        (''distCustom'', None)] \<and>
   timeOut [''groundSpeedKt'' \<mapsto> ''120'', ''customMinutes'' \<mapsto> ''0'']
     = [(''dist3min'', Some (Fin 6)), (''dist2min'', Some (Fin 4)), (''dist1min'', Some (Fin 2)),
        (''distCustom'', None)]"
proof (intro conjI)
  obtain gs where gs: "toNum0 (property v ''groundSpeedKt'') = Fin gs"
    using toNum0_finite by blast
  obtain c where c: "toNum0 (property v ''customMinutes'') = Fin c"
    using toNum0_finite by blast
  show "\<exists>gs c. toNum0 (property v ''groundSpeedKt'') = Fin gs \<and>
            toNum0 (property v ''customMinutes'') = Fin c \<and>
            timeOut v =
              [(''dist3min'', Some (js_mul (js_div (Fin gs) (Fin 60)) (Fin 3))),
               (''dist2min'', Some (js_mul (js_div (Fin gs) (Fin 60)) (Fin 2))),
               (''dist1min'', Some (js_mul (js_div (Fin gs) (Fin 60)) (Fin 1))),
               (''distCustom'',
                if c = 0 then None else Some (js_mul (js_div (Fin gs) (Fin 60)) (Fin c)))]"
    using gs c by (simp add: timeOut_def Let_def)
qed (simp_all add: timeOut_def parse_defs fl_numeral fl_zero)

section \<open>The numeric parser\<close>

lemma isFinite_js_neg: "isFinite (js_neg n) = isFinite n"
  by (cases n) simp_all

lemma parseFloat_no_literal:
  assumes "dropWhile is_white_space t = c # r" "\<not> is_digit c"
    "c \<noteq> CHR ''+''" "c \<noteq> CHR ''-''" "c \<noteq> CHR ''.''" "c \<noteq> CHR ''I''"
  shows "parseFloat t = NaN"
proof -
  have "take 8 (c # r) \<noteq> ''Infinity''" using assms(6) by auto
  moreover have "takeWhile is_digit (c # r) = []" "dropWhile is_digit (c # r) = c # r"
    using assms(2) by simp_all
  ultimately have "StrUnsignedDecimalLiteral (c # r) = None"
    using assms(5) by (simp add: StrUnsignedDecimalLiteral_def)
  then have "StrDecimalLiteral (c # r) = None"
    using assms(3,4) by (simp add: StrDecimalLiteral_def)
  then show ?thesis by (simp add: parseFloat_def assms(1))
qed

lemma pow2_1024_le: "(2::real) ^ 1024 \<le> 10 ^ 309"
  by simp

lemma fl_overflow_pow10: "fl (10 ^ 999) = PInf"
proof -
  have "(10::real) ^ 309 \<le> 10 ^ 999" by (rule power_increasing) simp_all
  with pow2_1024_le have "(2::real) ^ 1024 \<le> 10 ^ 999" by (rule order_trans)
  then show ?thesis by (rule fl_overflow)
qed

text \<open>
  Claim C3, as stated: for every non-numeric, empty or comma-grouped-number string, and
  for \<open>undefined\<close>, \<open>toNum\<close> returns the fallback.  It does not for a comma-grouped
  number: \<open>2,000\<close> is parsed to 2000.
\<close>

theorem toNum_comma_grouped:
  "toNum (Str ''2,000'') (Some (Fin 0)) = Some (Fin 2000) \<and>
   toNum (Str ''2,000'') (Some (Fin 0)) \<noteq> Some (Fin 0)"
  by (simp add: parse_defs fl_numeral)

text \<open>
  Claim C3, amended: \<open>toNum\<close> is a total function (it never raises).  It returns the
  fallback for \<open>undefined\<close>, for the empty string and for every string whose text, once the
  commas and the leading white space are removed, begins with a character that cannot
  begin a number (not a digit, a sign, a point or the I of Infinity); it returns the
  fallback whenever the comma-stripped parse result is not finite (as for letters, \<open>NaN\<close>
  and \<open>Infinity\<close>) and the parse result otherwise; a comma-grouped number is parsed with
  its commas removed (\<open>2,000\<close> gives 2000).
\<close>

theorem toNum_fallback:
  "toNum Undefined fallback = fallback \<and>
   toNum (Str []) fallback = fallback \<and>
   (\<forall>s c r. dropWhile is_white_space (remove_commas s) = c # r \<and> \<not> is_digit c \<and>
        c \<noteq> CHR ''+'' \<and> c \<noteq> CHR ''-'' \<and> c \<noteq> CHR ''.'' \<and> c \<noteq> CHR ''I''
      \<longrightarrow> toNum (Str s) fallback = fallback) \<and>
   (\<forall>v. \<not> isFinite (parse_input v) \<longrightarrow> toNum v fallback = fallback) \<and>
   (\<forall>v. isFinite (parse_input v) \<longrightarrow> toNum v fallback = Some (parse_input v)) \<and>
   toNum (Str ''abc'') fallback = fallback \<and>
   toNum (Str ''NaN'') fallback = fallback \<and>
   toNum (Str ''Infinity'') fallback = fallback \<and>
   toNum (Str ''2,000'') fallback = Some (Fin 2000)"
proof (intro conjI allI impI)
  fix s c r
  assume "dropWhile is_white_space (remove_commas s) = c # r \<and> \<not> is_digit c \<and>
        c \<noteq> CHR ''+'' \<and> c \<noteq> CHR ''-'' \<and> c \<noteq> CHR ''.'' \<and> c \<noteq> CHR ''I''"
  then have "parseFloat (remove_commas s) = NaN" by (elim conjE) (rule parseFloat_no_literal)
  then show "toNum (Str s) fallback = fallback" by (simp add: toNum_def parse_input_def)
qed (simp_all add: parse_defs fl_numeral)

theorem toNum_fallback_witness:
  "dropWhile is_white_space (remove_commas '' k,m'') = CHR ''k'' # ''m'' \<and>
   toNum (Str '' k,m'') (Some (Fin 0)) = Some (Fin 0) \<and>
   isFinite (parse_input (Str ''-1,5e2'')) \<and>
   parse_input (Str ''-1,5e2'') = Fin (- 1500) \<and>
   toNum (Str ''-1,5e2'') (Some (Fin 0)) = Some (Fin (- 1500)) \<and>
   parse_input (Str ''-Infinity'') = NInf \<and>
   toNum (Str ''-Infinity'') (Some (Fin 0)) = Some (Fin 0)"
proof -
  note t = toNum_fallback[of "Some (Fin 0)"]
  note t3 = t[THEN conjunct2, THEN conjunct2, THEN conjunct1, rule_format]
  note t4 = t[THEN conjunct2, THEN conjunct2, THEN conjunct2, THEN conjunct1, rule_format]
  note t5 = t[THEN conjunct2, THEN conjunct2, THEN conjunct2, THEN conjunct2, THEN conjunct1,
      rule_format]
  have a: "dropWhile is_white_space (remove_commas '' k,m'') = CHR ''k'' # ''m''"
    by (simp add: remove_commas_def is_white_space_def)
  have a': "\<not> is_digit (CHR ''k'')" by (simp add: is_digit_def)
  have 1: "toNum (Str '' k,m'') (Some (Fin 0)) = Some (Fin 0)"
    by (rule t3[of "'' k,m''" "CHR ''k''" "''m''"]) (simp add: a a')
  have b: "parse_input (Str ''-1,5e2'') = Fin (- 1500)"
    by (simp add: parse_defs fl_numeral)
  then have b': "isFinite (parse_input (Str ''-1,5e2''))" by simp
  have 2: "toNum (Str ''-1,5e2'') (Some (Fin 0)) = Some (Fin (- 1500))"
    using t5[OF b'] b by simp
  have c: "parse_input (Str ''-Infinity'') = NInf" by (simp add: parse_defs)
  then have c': "\<not> isFinite (parse_input (Str ''-Infinity''))" by simp
  have 3: "toNum (Str ''-Infinity'') (Some (Fin 0)) = Some (Fin 0)"
    by (rule t4[OF c'])
  from a 1 b' b 2 c 3 show ?thesis by (intro conjI)
qed

text \<open>
  Claim C10, as stated: the fallback is returned only when the comma-stripped string has
  no parseable leading numeric prefix.  It is also returned for a prefix that parses to
  an infinity: \<open>1e999\<close> and \<open>Infinity\<close> have such a prefix and give the fallback.
\<close>

theorem toNum_overflow_prefix:
  "StrDecimalLiteral (dropWhile is_white_space (remove_commas ''1e999''))
     = Some (False, Decimal 1 999) \<and>
   toNum (Str ''1e999'') None = None \<and>
   StrDecimalLiteral (dropWhile is_white_space (remove_commas ''Infinity''))
     = Some (False, Infinity_literal) \<and>
   toNum (Str ''Infinity'') None = None"
proof -
  have a: "StrDecimalLiteral (dropWhile is_white_space (remove_commas ''1e999''))
     = Some (False, Decimal 1 999)"
    by (simp add: parse_defs)
  have "nat 999 = 999" and "(0::int) \<le> 999" by simp_all
  then have "literal_value (Decimal 1 999) = fl (10 ^ 999)"
    by (simp only: literal_value.simps if_True of_nat_1 mult_1)
  also have "\<dots> = PInf" by (rule fl_overflow_pow10)
  finally have l: "literal_value (Decimal 1 999) = PInf" .
  have "parseFloat (remove_commas ''1e999'') = PInf"
    by (simp only: parseFloat_def a option.case prod.case if_False l)
  then have b: "toNum (Str ''1e999'') None = None"
    by (simp add: toNum_def parse_input_def)
  have c: "StrDecimalLiteral (dropWhile is_white_space (remove_commas ''Infinity''))
     = Some (False, Infinity_literal)"
    by (simp add: parse_defs)
  have d: "toNum (Str ''Infinity'') None = None" by (simp add: parse_defs)
  from a b c d show ?thesis by (intro conjI)
qed

text \<open>
  Claim C10, amended: \<open>toNum\<close> strips every comma, wherever it stands, and accepts any
  string with a leading numeric prefix: \<open>toNum("12abc") = 12\<close> and \<open>toNum("1,2") = 12\<close>.
  The fallback is returned only when the comma-stripped string (after leading white
  space) has no prefix that is a decimal literal, or when the value of that prefix is not
  finite; otherwise the value of the prefix is returned.
\<close>

theorem toNum_prefix:
  "toNum (Str ''12abc'') (Some (Fin 0)) = Some (Fin 12) \<and>
   toNum (Str ''1,2'') (Some (Fin 0)) = Some (Fin 12) \<and>
   toNum (Str (a @ '','' @ b)) fallback = toNum (Str (a @ b)) fallback \<and>
   toNum (Str s) fallback =
     (case StrDecimalLiteral (dropWhile is_white_space (remove_commas s)) of
        None \<Rightarrow> fallback
      | Some (negative, l) \<Rightarrow>
          if isFinite (literal_value l)
          then Some (if negative then js_neg (literal_value l) else literal_value l)
          else fallback)"
proof (intro conjI)
  show "toNum (Str (a @ '','' @ b)) fallback = toNum (Str (a @ b)) fallback"
    by (simp add: toNum_def parse_input_def remove_commas_def)
  show "toNum (Str s) fallback =
     (case StrDecimalLiteral (dropWhile is_white_space (remove_commas s)) of
        None \<Rightarrow> fallback
      | Some (negative, l) \<Rightarrow>
          if isFinite (literal_value l)
          then Some (if negative then js_neg (literal_value l) else literal_value l)
          else fallback)"
    by (simp add: toNum_def parse_input_def parseFloat_def isFinite_js_neg
        split: option.split prod.split)
qed (simp_all add: parse_defs fl_numeral)

section \<open>The guarded divisions\<close>





































section \<open>The turn radius\<close>

subsection \<open>Bounds of pi\<close>







subsection \<open>The tangent near an angle\<close>




subsection \<open>Propagation of relative error\<close>














subsection \<open>The tangent of the bank angle\<close>




subsection \<open>The radius, operation by operation\<close>

















end
